theory Spec2Isabelle
  imports Main "HOL-Library.AList"
begin

section \<open>torchbiggraph/config.py: overrides, global validation, config loader\<close>

text \<open>
  A shallow embedding of \<^verbatim>\<open>torchbiggraph/config.py\<close>. Python exceptions are values of
  the type \<open>exn\<close>; a function that may raise returns \<open>exn + 'a\<close> with \<open>Inl\<close> the exception.
  Strings are ASCII texts (\<open>char list\<close>); Python floats are not modelled: where the code
  calls \<^verbatim>\<open>float(text)\<close> the conversion is a parameter \<open>pf\<close> of the model, and \<open>'f\<close> is the
  type of its results.
\<close>

subsection \<open>Exceptions\<close>

datatype exn =
    ValueError string
  | TypeError string
  | AttributeError string
  | KeyError string
  | IndexError string
  | FileExistsError string
  | FileNotFoundError string
  | DeepTypeError string
  | RuntimeError string exn
  | SystemExit int

text \<open>
  \<open>RuntimeError msg cause\<close> is \<^verbatim>\<open>raise RuntimeError(msg) from cause\<close>. \<open>is_Exception e\<close> is
  \<^verbatim>\<open>isinstance(e, Exception)\<close>: of the classes above only \<^verbatim>\<open>SystemExit\<close> derives from
  \<^verbatim>\<open>BaseException\<close> directly, so that \<^verbatim>\<open>except Exception\<close> lets it pass.
\<close>

fun is_Exception :: "exn \<Rightarrow> bool" where
  "is_Exception (SystemExit _) = False"
| "is_Exception _ = True"

subsection \<open>The string methods and constructors of Python the code calls\<close>

text \<open>
  \<^verbatim>\<open>s.rpartition(sep)\<close> for a one-character separator: the text before the last
  occurrence of \<open>sep\<close>, the separator, the text after it; \<^verbatim>\<open>('', '', s)\<close> when \<open>sep\<close>
  does not occur in \<open>s\<close>.
\<close>

definition rpartition :: "char \<Rightarrow> string \<Rightarrow> string \<times> string \<times> string" where
  "rpartition sep s =
     (let r = rev s; tail = takeWhile (\<lambda>c. c \<noteq> sep) r
      in case dropWhile (\<lambda>c. c \<noteq> sep) r of
           [] \<Rightarrow> ([], [], s)
         | _ # front \<Rightarrow> (rev front, [sep], rev tail))"

text \<open>
  \<^verbatim>\<open>s.split(sep)\<close> for a one-character separator: the maximal pieces between the
  occurrences of \<open>sep\<close>, in order; \<^verbatim>\<open>''.split(sep) == ['']\<close>.
\<close>

fun split :: "char \<Rightarrow> string \<Rightarrow> string list" where
  "split sep [] = [[]]"
| "split sep (c # cs) =
     (if c = sep then [] # split sep cs
      else (case split sep cs of
              [] \<Rightarrow> [[c]]
            | w # ws \<Rightarrow> (c # w) # ws))"

text \<open>
  \<^verbatim>\<open>int(text)\<close>, base 10, on ASCII text: white space is stripped at both ends, then an
  optional sign, then decimal digits, where a single underscore may stand between two
  digits. Anything else raises \<^verbatim>\<open>ValueError\<close>.
\<close>

definition is_space :: "char \<Rightarrow> bool" where
  "is_space c = (let n = (of_char c :: nat) in (9 \<le> n \<and> n \<le> 13) \<or> (28 \<le> n \<and> n \<le> 32))"

definition is_digit :: "char \<Rightarrow> bool" where
  "is_digit c = (let n = (of_char c :: nat) in 48 \<le> n \<and> n \<le> 57)"

definition digit_val :: "char \<Rightarrow> nat" where
  "digit_val c = of_char c - 48"

definition strip :: "string \<Rightarrow> string" where
  "strip s = rev (dropWhile is_space (rev (dropWhile is_space s)))"

fun digits_value :: "nat \<Rightarrow> string \<Rightarrow> nat option" where
  "digits_value acc [] = Some acc"
| "digits_value acc [c] = (if is_digit c then Some (10 * acc + digit_val c) else None)"
| "digits_value acc (c # d # ds) =
     (if is_digit c then digits_value (10 * acc + digit_val c) (d # ds)
      else if c = CHR ''_'' \<and> is_digit d then digits_value (10 * acc + digit_val d) ds
      else None)"

definition nat_of_digits :: "string \<Rightarrow> nat option" where
  "nat_of_digits s =
     (case s of
        [] \<Rightarrow> None
      | c # cs \<Rightarrow> if is_digit c then digits_value (digit_val c) cs else None)"

definition py_int :: "string \<Rightarrow> exn + int" where
  "py_int text =
     (let t = strip text;
          r = (case t of
                 [] \<Rightarrow> None
               | c # cs \<Rightarrow>
                   if c = CHR ''+'' then map_option int (nat_of_digits cs)
                   else if c = CHR ''-'' then map_option (\<lambda>n. - int n) (nat_of_digits cs)
                   else map_option int (nat_of_digits t))
      in case r of
           None \<Rightarrow> Inl (ValueError (''invalid literal for int() with base 10: '' @ text))
         | Some n \<Rightarrow> Inr n)"

text \<open>\<^verbatim>\<open>"%d" % n\<close> for a list index \<open>n\<close>.\<close>

fun show_nat :: "nat \<Rightarrow> string" where
  "show_nat n =
     (if n < 10 then [char_of (48 + n)]
      else show_nat (n div 10) @ [char_of (48 + n mod 10)])"

subsection \<open>Type annotations of the schema\<close>

text \<open>
  The annotations that occur in the three schema classes of the file. \<open>TClass\<close> is a
  schema class itself, \<open>TBucketOrder\<close> the enum, \<open>TOptional\<close>, \<open>TList\<close> and \<open>TDict\<close> the
  \<^verbatim>\<open>typing\<close> forms \<^verbatim>\<open>Optional[t]\<close>, \<^verbatim>\<open>List[t]\<close> and \<^verbatim>\<open>Dict[k, v]\<close>.
\<close>

datatype schema_class = EntitySchemaC | RelationSchemaC | ConfigSchemaC

datatype py_type =
    TInt
  | TFloat
  | TBool
  | TStr
  | TBucketOrder
  | TClass schema_class
  | TOptional py_type
  | TList py_type
  | TDict py_type py_type

text \<open>\<^verbatim>\<open>isinstance(t, type)\<close>: true of classes, false of the \<^verbatim>\<open>typing\<close> forms.\<close>

fun isinstance_type :: "py_type \<Rightarrow> bool" where
  "isinstance_type (TOptional _) = False"
| "isinstance_type (TList _) = False"
| "isinstance_type (TDict _ _) = False"
| "isinstance_type _ = True"

text \<open>\<^verbatim>\<open>issubclass(t, (int, float))\<close> and \<^verbatim>\<open>issubclass(t, bool)\<close>, for a class \<open>t\<close>.\<close>

fun issubclass_int_float :: "py_type \<Rightarrow> bool" where
  "issubclass_int_float TInt = True"
| "issubclass_int_float TFloat = True"
| "issubclass_int_float TBool = True"
| "issubclass_int_float _ = False"

fun issubclass_bool :: "py_type \<Rightarrow> bool" where
  "issubclass_bool TBool = True"
| "issubclass_bool _ = False"

text \<open>The fields of the three schema classes with their annotations, in source order.\<close>

fun fields :: "schema_class \<Rightarrow> (string \<times> py_type) list" where
  "fields EntitySchemaC =
     [(''num_partitions'', TInt),
      (''featurized'', TBool),
      (''dimension'', TOptional TInt)]"
| "fields RelationSchemaC =
     [(''name'', TStr),
      (''lhs'', TStr),
      (''rhs'', TStr),
      (''weight'', TFloat),
      (''operator'', TStr),
      (''all_negs'', TBool)]"
| "fields ConfigSchemaC =
     [(''entities'', TDict TStr (TClass EntitySchemaC)),
      (''relations'', TList (TClass RelationSchemaC)),
      (''dimension'', TInt),
      (''init_scale'', TFloat),
      (''max_norm'', TOptional TFloat),
      (''global_emb'', TBool),
      (''comparator'', TStr),
      (''bias'', TBool),
      (''loss_fn'', TStr),
      (''margin'', TFloat),
      (''entity_path'', TStr),
      (''edge_paths'', TList TStr),
      (''checkpoint_path'', TStr),
      (''init_path'', TOptional TStr),
      (''checkpoint_preservation_interval'', TOptional TInt),
      (''num_epochs'', TInt),
      (''num_edge_chunks'', TOptional TInt),
      (''max_edges_per_chunk'', TInt),
      (''bucket_order'', TBucketOrder),
      (''workers'', TOptional TInt),
      (''batch_size'', TInt),
      (''num_batch_negs'', TInt),
      (''num_uniform_negs'', TInt),
      (''disable_lhs_negs'', TBool),
      (''disable_rhs_negs'', TBool),
      (''lr'', TFloat),
      (''relation_lr'', TOptional TFloat),
      (''eval_fraction'', TFloat),
      (''eval_num_batch_negs'', TInt),
      (''eval_num_uniform_negs'', TInt),
      (''background_io'', TBool),
      (''verbose'', TInt),
      (''hogwild_delay'', TFloat),
      (''dynamic_relations'', TBool),
      (''num_machines'', TInt),
      (''num_partition_servers'', TInt),
      (''distributed_init_method'', TOptional TStr),
      (''distributed_tree_init_order'', TBool),
      (''num_gpus'', TInt),
      (''num_groups_for_partition_server'', TInt),
      (''half_precision'', TBool)]"

subsection \<open>Raw configurations\<close>

text \<open>
  What \<^verbatim>\<open>get_torchbiggraph_config()\<close> returns and the overrides change: nested
  dictionaries, lists and scalars. A dictionary is an association list in insertion
  order; \<^verbatim>\<open>d[k] = v\<close> is \<open>AList.update k v\<close>.
\<close>

datatype 'f raw =
    RNone
  | RBool bool
  | RInt int
  | RFloat 'f
  | RStr string
  | RList "'f raw list"
  | RDict "(string \<times> 'f raw) list"

subsection \<open>The helpers of torchbiggraph.schema\<close>

text \<open>
  \<^verbatim>\<open>override_config_dict\<close> calls three functions of \<^verbatim>\<open>torchbiggraph/schema.py\<close>, which
  is not among the sources at hand. \<^verbatim>\<open>extract_nested_type\<close> and
  \<^verbatim>\<open>inject_nested_value\<close> are parameters \<open>resolve\<close> and \<open>inject\<close> of the model of
  \<^verbatim>\<open>override_config_dict\<close>; the definitions below are the instances the specification
  describes, used where a statement is about a concrete path.
\<close>

text \<open>
  Modelled from the spec: \<^verbatim>\<open>has_origin(t, list)\<close> of \<^verbatim>\<open>torchbiggraph/schema.py\<close>, which
  is missing. It holds when the annotation \<open>t\<close> is a sequence type \<^verbatim>\<open>List[...]\<close>; the call
  in \<^verbatim>\<open>override_config_dict\<close> passes the origin \<^verbatim>\<open>list\<close> alone, so the element type plays
  no part.
\<close>

fun has_origin_list :: "py_type \<Rightarrow> bool" where
  "has_origin_list (TList _) = True"
| "has_origin_list _ = False"

text \<open>
  Modelled from the spec: \<^verbatim>\<open>extract_nested_type\<close> of \<^verbatim>\<open>torchbiggraph/schema.py\<close>, which
  is missing (the Type Navigator). A path segment names a field of the current record
  type; below a mapping or a sequence one segment, any key or index, descends into the
  element type. It fails when a segment names no field of the record type, and when
  the path descends into a scalar.
\<close>

fun extract_nested_type :: "py_type \<Rightarrow> string list \<Rightarrow> exn + py_type" where
  "extract_nested_type t [] = Inr t"
| "extract_nested_type (TClass c) (key # rest) =
     (case map_of (fields c) key of
        None \<Rightarrow> Inl (KeyError key)
      | Some t \<Rightarrow> extract_nested_type t rest)"
| "extract_nested_type (TList t) (key # rest) = extract_nested_type t rest"
| "extract_nested_type (TDict k t) (key # rest) = extract_nested_type t rest"
| "extract_nested_type t (key # rest) = Inl (TypeError key)"

text \<open>
  Modelled from the spec: \<^verbatim>\<open>inject_nested_value\<close> of \<^verbatim>\<open>torchbiggraph/schema.py\<close>, which
  is missing (the Value Injector). It walks the raw value along the path, puts an
  empty mapping at each intermediate segment a mapping lacks, never creates a sequence
  element (an index must name an element that exists), and sets the leaf, overwriting
  what was there.
\<close>

fun inject_nested_value :: "'f raw \<Rightarrow> string list \<Rightarrow> 'f raw \<Rightarrow> exn + 'f raw" where
  "inject_nested_value data [] v = Inl (ValueError [])"
| "inject_nested_value (RDict kvs) [key] v = Inr (RDict (AList.update key v kvs))"
| "inject_nested_value (RDict kvs) (key # k # rest) v =
     (case inject_nested_value
             (case map_of kvs key of None \<Rightarrow> RDict [] | Some sub \<Rightarrow> sub) (k # rest) v of
        Inl e \<Rightarrow> Inl e
      | Inr sub' \<Rightarrow> Inr (RDict (AList.update key sub' kvs)))"
| "inject_nested_value (RList xs) (key # rest) v =
     (case py_int key of
        Inl e \<Rightarrow> Inl e
      | Inr i \<Rightarrow>
          if i < 0 \<or> int (length xs) \<le> i then Inl (IndexError key)
          else if rest = [] then Inr (RList (xs[nat i := v]))
          else (case inject_nested_value (xs ! nat i) rest v of
                  Inl e \<Rightarrow> Inl e
                | Inr x' \<Rightarrow> Inr (RList (xs[nat i := x']))))"
| "inject_nested_value data (key # rest) v = Inl (TypeError key)"

subsection \<open>override\_config\_dict\<close>

text \<open>
  The body of the \<^verbatim>\<open>try\<close> block, statement by statement. \<open>split_override\<close> is
  \<^verbatim>\<open>key, _, value = override.rpartition("="); path = key.split(".")\<close>.
\<close>

definition split_override :: "string \<Rightarrow> string list \<times> string" where
  "split_override override =
     (case rpartition CHR ''='' override of
        (key, _, value) \<Rightarrow> (split CHR ''.'' key, value))"

text \<open>\<^verbatim>\<open>param_type(value)\<close> for the classes \<^verbatim>\<open>int\<close> and \<^verbatim>\<open>float\<close>.\<close>

fun construct :: "(string \<Rightarrow> exn + 'f) \<Rightarrow> py_type \<Rightarrow> 'f raw \<Rightarrow> exn + 'f raw" where
  "construct pf TInt (RStr s) = (case py_int s of Inl e \<Rightarrow> Inl e | Inr n \<Rightarrow> Inr (RInt n))"
| "construct pf TFloat (RStr s) = (case pf s of Inl e \<Rightarrow> Inl e | Inr x \<Rightarrow> Inr (RFloat x))"
| "construct pf t v = Inl (TypeError ''argument must be a string or a number'')"

text \<open>
  The two conversions: a list-typed parameter has its text split on commas, a
  parameter whose type is a class below \<^verbatim>\<open>int\<close> or \<^verbatim>\<open>float\<close> and not below \<^verbatim>\<open>bool\<close>
  has its value passed to that class.
\<close>

definition coerce :: "(string \<Rightarrow> exn + 'f) \<Rightarrow> py_type \<Rightarrow> string \<Rightarrow> exn + 'f raw" where
  "coerce pf param_type value =
     (let v1 = (if has_origin_list param_type
                then RList (map RStr (split CHR '','' value))
                else RStr value)
      in if isinstance_type param_type \<and> issubclass_int_float param_type
            \<and> \<not> issubclass_bool param_type
         then construct pf param_type v1
         else Inr v1)"

text \<open>The statements of the \<^verbatim>\<open>try\<close> block for a path and a value text.\<close>

definition attempt ::
  "(py_type \<Rightarrow> string list \<Rightarrow> exn + py_type) \<Rightarrow>
   ('f raw \<Rightarrow> string list \<Rightarrow> 'f raw \<Rightarrow> exn + 'f raw) \<Rightarrow>
   (string \<Rightarrow> exn + 'f) \<Rightarrow> 'f raw \<Rightarrow> string list \<Rightarrow> string \<Rightarrow> exn + 'f raw" where
  "attempt resolve inject pf config_dict path value =
     (case resolve (TClass ConfigSchemaC) path of
        Inl e \<Rightarrow> Inl e
      | Inr param_type \<Rightarrow>
          (case coerce pf param_type value of
             Inl e \<Rightarrow> Inl e
           | Inr v \<Rightarrow> inject config_dict path v))"

text \<open>
  \<^verbatim>\<open>except Exception as err: raise RuntimeError("Can't parse override: %s" % override) from err\<close>
\<close>

definition override_message :: "string \<Rightarrow> string" where
  "override_message override = ''Can'' @ [CHR 0x27] @ ''t parse override: '' @ override"

definition reraise :: "string \<Rightarrow> exn + 'a \<Rightarrow> exn + 'a" where
  "reraise override r =
     (case r of
        Inl err \<Rightarrow>
          if is_Exception err then Inl (RuntimeError (override_message override) err)
          else Inl err
      | Inr x \<Rightarrow> Inr x)"

text \<open>One round of the loop.\<close>

definition override_one ::
  "(py_type \<Rightarrow> string list \<Rightarrow> exn + py_type) \<Rightarrow>
   ('f raw \<Rightarrow> string list \<Rightarrow> 'f raw \<Rightarrow> exn + 'f raw) \<Rightarrow>
   (string \<Rightarrow> exn + 'f) \<Rightarrow> 'f raw \<Rightarrow> string \<Rightarrow> exn + 'f raw" where
  "override_one resolve inject pf config_dict override =
     reraise override
       (case split_override override of
          (path, value) \<Rightarrow> attempt resolve inject pf config_dict path value)"

text \<open>
  The loop over the flattened overrides. The dictionary is changed in place, so each
  round works on what the rounds before it left; the first exception ends the loop.
\<close>

fun override_loop ::
  "(py_type \<Rightarrow> string list \<Rightarrow> exn + py_type) \<Rightarrow>
   ('f raw \<Rightarrow> string list \<Rightarrow> 'f raw \<Rightarrow> exn + 'f raw) \<Rightarrow>
   (string \<Rightarrow> exn + 'f) \<Rightarrow> 'f raw \<Rightarrow> string list \<Rightarrow> exn + 'f raw" where
  "override_loop resolve inject pf config_dict [] = Inr config_dict"
| "override_loop resolve inject pf config_dict (override # rest) =
     (case override_one resolve inject pf config_dict override of
        Inl e \<Rightarrow> Inl e
      | Inr config_dict' \<Rightarrow> override_loop resolve inject pf config_dict' rest)"

definition override_config_dict ::
  "(py_type \<Rightarrow> string list \<Rightarrow> exn + py_type) \<Rightarrow>
   ('f raw \<Rightarrow> string list \<Rightarrow> 'f raw \<Rightarrow> exn + 'f raw) \<Rightarrow>
   (string \<Rightarrow> exn + 'f) \<Rightarrow> 'f raw \<Rightarrow> string list list option \<Rightarrow> exn + 'f raw" where
  "override_config_dict resolve inject pf config_dict overrides =
     override_loop resolve inject pf config_dict
       (concat (case overrides of None \<Rightarrow> [] | Some os \<Rightarrow> os))"

subsection \<open>ConfigSchema: the global validation\<close>

text \<open>
  \<^verbatim>\<open>__attrs_post_init__\<close> reads three fields of a relation and eight fields of the
  configuration. The records declare those; every other field of the classes lives in
  the extension part of the record schemes, so that the statements below hold of the
  full classes. \<^verbatim>\<open>entities\<close> is a dictionary whose values the hook never reads.
\<close>

record RelationSchema =
  name :: string
  lhs :: string
  rhs :: string

record ('e, 'm) ConfigSchema =
  entities :: "(string \<times> 'e) list"
  relations :: "'m RelationSchema_scheme list"
  comparator :: string
  loss_fn :: string
  disable_lhs_negs :: bool
  disable_rhs_negs :: bool
  background_io :: bool
  dynamic_relations :: bool

text \<open>What the hook sends to the logger \<^verbatim>\<open>torchbiggraph\<close>: a level and a message.\<close>

datatype level = WARNING | CRITICAL

type_synonym log_record = "level \<times> string"

definition unknown_lhs_message :: "string \<Rightarrow> nat \<Rightarrow> string \<Rightarrow> string" where
  "unknown_lhs_message rel_name rel_id side =
     ''Relation type '' @ rel_name @ '' (#'' @ show_nat rel_id
       @ '') has an unknown left-hand side entity type '' @ side"

definition unknown_rhs_message :: "string \<Rightarrow> nat \<Rightarrow> string \<Rightarrow> string" where
  "unknown_rhs_message rel_name rel_id side =
     ''Relation type '' @ rel_name @ '' (#'' @ show_nat rel_id
       @ '') has an unknown right-hand side entity type '' @ side"

text \<open>
  \<^verbatim>\<open>for rel_id, rel_config in enumerate(self.relations)\<close>, from index \<open>rel_id\<close> on:
  the exception of the first relation whose side is no key of \<open>ents\<close>, if any.
\<close>

fun check_relations ::
  "(string \<times> 'e) list \<Rightarrow> nat \<Rightarrow> 'm RelationSchema_scheme list \<Rightarrow> exn option" where
  "check_relations ents rel_id [] = None"
| "check_relations ents rel_id (rel_config # rest) =
     (if lhs rel_config \<notin> set (map fst ents)
      then Some (ValueError (unknown_lhs_message (name rel_config) rel_id (lhs rel_config)))
      else if rhs rel_config \<notin> set (map fst ents)
      then Some (ValueError (unknown_rhs_message (name rel_config) rel_id (rhs rel_config)))
      else check_relations ents (Suc rel_id) rest)"

text \<open>
  \<^verbatim>\<open>__attrs_post_init__\<close>: the records logged, in order, and the exception raised, if
  any. The hook runs at the end of the construction of a \<^verbatim>\<open>ConfigSchema\<close>, so a
  configuration object exists only if it raised nothing.
\<close>

definition attrs_post_init :: "('e, 'm, 'z) ConfigSchema_scheme \<Rightarrow> log_record list \<times> exn option" where
  "attrs_post_init self =
     (case check_relations (entities self) 0 (relations self) of
        Some e \<Rightarrow> ([], Some e)
      | None \<Rightarrow>
          if dynamic_relations self \<and> length (relations self) \<noteq> 1
          then ([], Some (ValueError
                 ''When dynamic relations are in use only one relation type must be defined.''))
          else
            let log1 = (if loss_fn self = ''logistic'' \<and> comparator self = ''cos''
                        then [(WARNING, ''You have logistic loss and cosine distance. Are you sure?'')]
                        else [])
            in if disable_lhs_negs self \<and> disable_rhs_negs self
               then (log1, Some (ValueError ''Cannot disable negative sampling on both sides.''))
               else (log1 @ (if background_io self
                             then [(WARNING, ''`background_io` is deprecated and will have no effect.'')]
                             else []),
                     None))"

subsection \<open>parse\_config\<close>

text \<open>
  \<^verbatim>\<open>ConfigSchema.from_dict\<close> is inherited from \<^verbatim>\<open>torchbiggraph.schema.Schema\<close>, which is
  not among the sources at hand; it is the parameter \<open>from_dict\<close>. \<open>DeepTypeError msg\<close>
  carries the text \<^verbatim>\<open>f"{err}"\<close> renders. The result is what \<^verbatim>\<open>parse_config\<close> itself logs
  and what it returns or raises.
\<close>

definition parse_config :: "('r \<Rightarrow> exn + 'c) \<Rightarrow> 'r \<Rightarrow> log_record list \<times> (exn + 'c)" where
  "parse_config from_dict config_dict =
     (case from_dict config_dict of
        Inr config \<Rightarrow> ([], Inr config)
      | Inl (DeepTypeError msg) \<Rightarrow>
          ([(CRITICAL, ''Error in the configuration file, aborting.''), (CRITICAL, msg)],
           Inl (SystemExit 1))
      | Inl err \<Rightarrow> ([], Inl err))"

subsection \<open>ConfigFileLoader\<close>

text \<open>
  The part of the process the loader changes: the list \<^verbatim>\<open>sys.path\<close> and the temporary
  directories on disk. \<^verbatim>\<open>self.sys_path\<close> is the list object \<^verbatim>\<open>sys.path\<close> itself, so every
  loader appends to and removes from the one list \<open>sys_path\<close> of the world (the name
  \<^verbatim>\<open>sys.path\<close> is taken never to be bound to another list while loaders live).
\<close>

record world =
  sys_path :: "string list"
  dirs :: "string list"

text \<open>
  A \<^verbatim>\<open>tempfile.TemporaryDirectory\<close>: its name, and whether its finalizer is still
  attached (\<^verbatim>\<open>cleanup\<close> detaches it and removes the tree only if it was attached).
\<close>

record TemporaryDirectory =
  td_name :: string
  finalizer_alive :: bool

text \<open>
  A loader object: \<open>config_dir\<close> is \<open>None\<close> and \<open>has_sys_path\<close> is false while
  \<^verbatim>\<open>__init__\<close> has not set the attribute.
\<close>

record ConfigFileLoader =
  config_dir :: "TemporaryDirectory option"
  has_sys_path :: bool

text \<open>
  \<^verbatim>\<open>shutil.rmtree(name)\<close> on the directories of the world; it raises when the directory
  does not exist. \<^verbatim>\<open>TemporaryDirectory.cleanup\<close> of later Python versions ignores a
  missing directory, so \<^verbatim>\<open>__del__\<close> below takes the removal as its parameter \<open>rm\<close>.
\<close>

definition rmtree :: "string \<Rightarrow> string list \<Rightarrow> exn + string list" where
  "rmtree nm ds =
     (if nm \<in> set ds then Inr (removeAll nm ds) else Inl (FileNotFoundError nm))"

text \<open>
  \<^verbatim>\<open>__init__\<close>. \<open>nm\<close> is the name \<^verbatim>\<open>tempfile\<close> generates; \<^verbatim>\<open>TemporaryDirectory\<close> creates
  the directory or raises when it cannot (here: the name is taken). The result is the
  object, the world and the exception raised, if any.
\<close>

definition ConfigFileLoader_init ::
  "string \<Rightarrow> world \<Rightarrow> ConfigFileLoader \<times> world \<times> exn option" where
  "ConfigFileLoader_init nm w =
     (if nm \<in> set (dirs w)
      then (\<lparr>config_dir = None, has_sys_path = False\<rparr>, w, Some (FileExistsError nm))
      else (\<lparr>config_dir = Some \<lparr>td_name = nm, finalizer_alive = True\<rparr>, has_sys_path = True\<rparr>,
            \<lparr>sys_path = sys_path w @ [nm], dirs = dirs w @ [nm]\<rparr>,
            None))"

text \<open>
  \<^verbatim>\<open>__del__\<close>: \<^verbatim>\<open>self.sys_path.remove(self.config_dir.name)\<close>, then
  \<^verbatim>\<open>self.config_dir.cleanup()\<close>. \<^verbatim>\<open>list.remove\<close> deletes the first element equal to its
  argument and raises \<^verbatim>\<open>ValueError\<close> when there is none.
\<close>

definition ConfigFileLoader_del ::
  "(string \<Rightarrow> string list \<Rightarrow> exn + string list) \<Rightarrow> ConfigFileLoader \<Rightarrow> world \<Rightarrow>
   ConfigFileLoader \<times> world \<times> exn option" where
  "ConfigFileLoader_del rm self w =
     (if \<not> has_sys_path self then (self, w, Some (AttributeError ''sys_path''))
      else case config_dir self of
             None \<Rightarrow> (self, w, Some (AttributeError ''config_dir''))
           | Some d \<Rightarrow>
               if td_name d \<notin> set (sys_path w)
               then (self, w, Some (ValueError ''list.remove(x): x not in list''))
               else
                 let w1 = w\<lparr>sys_path := remove1 (td_name d) (sys_path w)\<rparr>
                 in if finalizer_alive d
                    then (case rm (td_name d) (dirs w1) of
                            Inl e \<Rightarrow>
                              (self\<lparr>config_dir := Some (d\<lparr>finalizer_alive := False\<rparr>)\<rparr>,
                               w1, Some e)
                          | Inr ds \<Rightarrow>
                              (self\<lparr>config_dir := Some (d\<lparr>finalizer_alive := False\<rparr>)\<rparr>,
                               w1\<lparr>dirs := ds\<rparr>, None))
                    else (self, w1, None))"

section \<open>Properties\<close>

subsection \<open>Splitting an override\<close>

lemma dropWhile_until:
  "c \<notin> set xs \<Longrightarrow> dropWhile (\<lambda>x. x \<noteq> c) (xs @ c # ys) = c # ys"
  by (induction xs) auto

lemma takeWhile_until:
  "c \<notin> set xs \<Longrightarrow> takeWhile (\<lambda>x. x \<noteq> c) (xs @ c # ys) = xs"
  by (induction xs) auto

lemma rpartition_append:
  assumes "sep \<notin> set v"
  shows "rpartition sep (k @ sep # v) = (k, [sep], v)"
proof -
  have "sep \<notin> set (rev v)"
    using assms by simp
  then show ?thesis
    by (simp add: rpartition_def dropWhile_until takeWhile_until)
qed

lemma split_override_append:
  "CHR ''='' \<notin> set value \<Longrightarrow>
   split_override (key @ CHR ''='' # value) = (split CHR ''.'' key, value)"
  by (simp add: split_override_def rpartition_append)

lemma override_one_unfold:
  "split_override override = (path, value) \<Longrightarrow>
   override_one resolve inject pf config_dict override =
     reraise override (attempt resolve inject pf config_dict path value)"
  by (simp add: override_one_def)

text \<open>
  C1, as amended. An override that contains \<open>=\<close> is split at its last \<open>=\<close>: the value is
  the text after it, which therefore contains no \<open>=\<close>, and the path is the text before
  it, split on dots; these two are what the type lookup, the conversion and the
  injection receive.
\<close>

theorem override_split_at_last_equals:
  assumes "CHR ''='' \<in> set override"
  shows "\<exists>key value.
           override = key @ CHR ''='' # value \<and> CHR ''='' \<notin> set value \<and>
           split_override override = (split CHR ''.'' key, value) \<and>
           override_one resolve inject pf config_dict override =
             reraise override
               (attempt resolve inject pf config_dict (split CHR ''.'' key) value)"
proof -
  from assms obtain k v
    where parts: "override = k @ CHR ''='' # v" and last: "CHR ''='' \<notin> set v"
    using split_list_last [of "CHR ''=''" override] by blast
  have sp: "split_override override = (split CHR ''.'' k, v)"
    using parts last by (simp add: split_override_append)
  show ?thesis
    using parts last sp override_one_unfold [OF sp] by blast
qed

theorem override_split_at_last_equals_witness:
  "CHR ''='' \<in> set ''relations.0.weight=2.5'' \<and>
   (\<exists>key value.
      ''relations.0.weight=2.5'' = key @ CHR ''='' # value \<and> CHR ''='' \<notin> set value \<and>
      split_override ''relations.0.weight=2.5'' = (split CHR ''.'' key, value))"
proof -
  have h: "CHR ''='' \<in> set ''relations.0.weight=2.5''"
    by simp
  from override_split_at_last_equals
         [OF h, where resolve = extract_nested_type and inject = inject_nested_value
            and pf = "\<lambda>s. Inr s" and config_dict = "RDict []"]
  show ?thesis
    using h by blast
qed

text \<open>
  The claim C1 as it stands fails: in \<^verbatim>\<open>init_path=/data/run=3\<close> the value meant is
  \<^verbatim>\<open>/data/run=3\<close>, and the split hands on the value \<^verbatim>\<open>3\<close> and the one path segment
  \<^verbatim>\<open>init_path=/data/run\<close>.
\<close>

theorem value_with_equals_is_cut:
  "split_override ''init_path=/data/run=3'' = ([''init_path=/data/run''], ''3'') \<and>
   snd (split_override ''init_path=/data/run=3'') \<noteq> ''/data/run=3''"
  by (simp add: split_override_def rpartition_def)

subsection \<open>Converting the value\<close>




lemma coerce_list: "coerce pf (TList t) value = Inr (RList (map RStr (split CHR '','' value)))"
  by (simp add: coerce_def)


lemma attempt_resolved:
  "resolve (TClass ConfigSchemaC) path = Inr t \<Longrightarrow>
   attempt resolve inject pf config_dict path value =
     (case coerce pf t value of Inl e \<Rightarrow> Inl e | Inr v \<Rightarrow> inject config_dict path v)"
  by (simp add: attempt_def)







lemma split_edge_paths:
  "split_override ''edge_paths=/a,/b,/c'' = ([''edge_paths''], ''/a,/b,/c'')"
  by (simp add: split_override_def rpartition_def)

lemma override_edge_paths:
  "override_config_dict extract_nested_type inject_nested_value pf (RDict kvs)
     (Some [[''edge_paths=/a,/b,/c'']]) =
   Inr (RDict (AList.update ''edge_paths'' (RList [RStr ''/a'', RStr ''/b'', RStr ''/c'']) kvs))"
  by (simp add: override_config_dict_def override_one_unfold [OF split_edge_paths]
      attempt_def coerce_list reraise_def)

text \<open>
  C3. When the path of an override resolves to a list type, the value text is split on
  commas and the list of the pieces, as strings, is injected. On a dictionary, the
  override \<^verbatim>\<open>edge_paths=/a,/b,/c\<close> puts the list of \<^verbatim>\<open>/a\<close>, \<^verbatim>\<open>/b\<close> and \<^verbatim>\<open>/c\<close> at the key
  \<^verbatim>\<open>edge_paths\<close>.
\<close>

theorem list_override_split:
  "(split_override override = (path, vtext) \<and>
      resolve (TClass ConfigSchemaC) path = Inr (TList t) \<longrightarrow>
    override_one resolve inject pf config_dict override =
      reraise override (inject config_dict path (RList (map RStr (split CHR '','' vtext)))))
   \<and> (\<exists>kvs'. override_config_dict extract_nested_type inject_nested_value pf (RDict kvs)
                (Some [[''edge_paths=/a,/b,/c'']]) = Inr (RDict kvs') \<and>
              map_of kvs' ''edge_paths'' = Some (RList [RStr ''/a'', RStr ''/b'', RStr ''/c'']))"
proof -
  have a: "split_override override = (path, vtext) \<and>
      resolve (TClass ConfigSchemaC) path = Inr (TList t) \<longrightarrow>
    override_one resolve inject pf config_dict override =
      reraise override (inject config_dict path (RList (map RStr (split CHR '','' vtext))))"
    by (simp add: override_one_unfold attempt_resolved coerce_list)
  have b: "\<exists>kvs'. override_config_dict extract_nested_type inject_nested_value pf (RDict kvs)
                (Some [[''edge_paths=/a,/b,/c'']]) = Inr (RDict kvs') \<and>
              map_of kvs' ''edge_paths'' = Some (RList [RStr ''/a'', RStr ''/b'', RStr ''/c''])"
    by (simp add: override_edge_paths update_conv')
  from a b show ?thesis
    by blast
qed

theorem list_override_split_witness:
  "split_override ''edge_paths=/a,/b,/c'' = ([''edge_paths''], ''/a,/b,/c'') \<and>
   extract_nested_type (TClass ConfigSchemaC) [''edge_paths''] = Inr (TList TStr) \<and>
   override_one extract_nested_type inject_nested_value Inr (RDict [(''dimension'', RInt 100)])
       ''edge_paths=/a,/b,/c'' =
     Inr (RDict [(''dimension'', RInt 100),
                 (''edge_paths'', RList [RStr ''/a'', RStr ''/b'', RStr ''/c''])])"
proof -
  have s1: "split_override ''edge_paths=/a,/b,/c'' = ([''edge_paths''], ''/a,/b,/c'')"
    by (rule split_edge_paths)
  have r1: "extract_nested_type (TClass ConfigSchemaC) [''edge_paths''] = Inr (TList TStr)"
    by simp
  have o1: "override_one extract_nested_type inject_nested_value Inr
       (RDict [(''dimension'', RInt 100)]) ''edge_paths=/a,/b,/c'' =
     Inr (RDict [(''dimension'', RInt 100),
                 (''edge_paths'', RList [RStr ''/a'', RStr ''/b'', RStr ''/c''])])"
    using s1 r1
      list_override_split [where override = "''edge_paths=/a,/b,/c''" and path = "[''edge_paths'']"
        and vtext = "''/a,/b,/c''" and resolve = extract_nested_type and t = TStr
        and inject = inject_nested_value and pf = Inr
        and config_dict = "RDict [(''dimension'', RInt 100)]"]
    by (simp add: reraise_def)
  from s1 r1 o1 show ?thesis
    by blast
qed





subsection \<open>Failures of an override\<close>





subsection \<open>The global validation\<close>


lemma check_relations_ValueError:
  "check_relations ents k rs = Some e \<Longrightarrow> \<exists>m. e = ValueError m"
  by (induction rs arbitrary: k) (auto split: if_splits)






lemma post_init_both_flags:
  assumes "disable_lhs_negs self" and "disable_rhs_negs self"
  shows "\<exists>logs m. attrs_post_init self = (logs, Some (ValueError m))"
proof (cases "check_relations (entities self) 0 (relations self)")
  case (Some e)
  then show ?thesis
    using check_relations_ValueError [OF Some] by (auto simp: attrs_post_init_def)
next
  case None
  then show ?thesis
    using assms by (simp add: attrs_post_init_def Let_def)
qed

lemma post_init_both_flags_exact:
  assumes "disable_lhs_negs self" and "disable_rhs_negs self"
    and "check_relations (entities self) 0 (relations self) = None"
    and "\<not> (dynamic_relations self \<and> length (relations self) \<noteq> 1)"
  shows "snd (attrs_post_init self) =
           Some (ValueError ''Cannot disable negative sampling on both sides.'')"
  using assms by (simp add: attrs_post_init_def Let_def)

lemma post_init_ok_flags:
  "attrs_post_init self = (logs, None) \<Longrightarrow> \<not> (disable_lhs_negs self \<and> disable_rhs_negs self)"
  by (auto simp: attrs_post_init_def Let_def split: option.splits if_splits)

text \<open>
  C6. With \<^verbatim>\<open>disable_lhs_negs\<close> and \<^verbatim>\<open>disable_rhs_negs\<close> both set, \<^verbatim>\<open>__attrs_post_init__\<close>
  raises a \<^verbatim>\<open>ValueError\<close>: the one of an earlier check, or, when the relations and the
  dynamic relation mode pass theirs, the one that says negative sampling cannot be
  disabled on both sides. So no configuration whose construction passed has both.
\<close>

theorem both_negs_disabled_rejected:
  "(disable_lhs_negs self \<and> disable_rhs_negs self \<longrightarrow>
      (\<exists>logs m. attrs_post_init self = (logs, Some (ValueError m))))
   \<and> (disable_lhs_negs self \<and> disable_rhs_negs self \<and>
        check_relations (entities self) 0 (relations self) = None \<and>
        \<not> (dynamic_relations self \<and> length (relations self) \<noteq> 1) \<longrightarrow>
      snd (attrs_post_init self) =
        Some (ValueError ''Cannot disable negative sampling on both sides.''))
   \<and> (attrs_post_init self = (logs', None) \<longrightarrow>
        \<not> (disable_lhs_negs self \<and> disable_rhs_negs self))"
  using post_init_both_flags [of self] post_init_both_flags_exact [of self]
    post_init_ok_flags [of self logs']
  by blast

theorem both_negs_disabled_rejected_witness:
  "attrs_post_init
     \<lparr>entities = [(''user'', ())],
      relations = [\<lparr>name = ''follows'', lhs = ''user'', rhs = ''user''\<rparr>],
      comparator = ''cos'', loss_fn = ''logistic'', disable_lhs_negs = True,
      disable_rhs_negs = True, background_io = False, dynamic_relations = False\<rparr> =
     ([(WARNING, ''You have logistic loss and cosine distance. Are you sure?'')],
      Some (ValueError ''Cannot disable negative sampling on both sides.'')) \<and>
   attrs_post_init
     \<lparr>entities = [(''user'', ())],
      relations = [\<lparr>name = ''follows'', lhs = ''user'', rhs = ''user''\<rparr>],
      comparator = ''cos'', loss_fn = ''ranking'', disable_lhs_negs = True,
      disable_rhs_negs = False, background_io = False, dynamic_relations = False\<rparr> = ([], None)"
proof -
  let ?both = "\<lparr>entities = [(''user'', ())],
      relations = [\<lparr>name = ''follows'', lhs = ''user'', rhs = ''user''\<rparr>],
      comparator = ''cos'', loss_fn = ''logistic'', disable_lhs_negs = True,
      disable_rhs_negs = True, background_io = False, dynamic_relations = False\<rparr>"
  let ?one = "\<lparr>entities = [(''user'', ())],
      relations = [\<lparr>name = ''follows'', lhs = ''user'', rhs = ''user''\<rparr>],
      comparator = ''cos'', loss_fn = ''ranking'', disable_lhs_negs = True,
      disable_rhs_negs = False, background_io = False, dynamic_relations = False\<rparr>"
  have logs: "fst (attrs_post_init ?both) =
      [(WARNING, ''You have logistic loss and cosine distance. Are you sure?'')]"
    by (simp add: attrs_post_init_def)
  have "snd (attrs_post_init ?both) =
      Some (ValueError ''Cannot disable negative sampling on both sides.'')"
    using both_negs_disabled_rejected [of ?both] by simp
  with logs have b: "attrs_post_init ?both =
     ([(WARNING, ''You have logistic loss and cosine distance. Are you sure?'')],
      Some (ValueError ''Cannot disable negative sampling on both sides.''))"
    by (simp add: prod_eq_iff)
  have o: "attrs_post_init ?one = ([], None)"
    by (simp add: attrs_post_init_def)
  from b o show ?thesis
    by blast
qed

subsection \<open>parse\_config\<close>

text \<open>
  C7. When \<^verbatim>\<open>ConfigSchema.from_dict\<close> raises the validation error \<^verbatim>\<open>DeepTypeError\<close>,
  \<^verbatim>\<open>parse_config\<close> logs two records at the critical level, the second one the text of
  the error, and raises \<^verbatim>\<open>SystemExit(1)\<close>. Any other exception of \<^verbatim>\<open>from_dict\<close> leaves
  \<^verbatim>\<open>parse_config\<close> as it is, with nothing logged; a configuration is returned as it is.
\<close>

theorem parse_config_exit:
  "(from_dict config_dict = Inl (DeepTypeError msg) \<longrightarrow>
      parse_config from_dict config_dict =
        ([(CRITICAL, ''Error in the configuration file, aborting.''), (CRITICAL, msg)],
         Inl (SystemExit 1)))
   \<and> (from_dict config_dict = Inl err \<and> (\<forall>m. err \<noteq> DeepTypeError m) \<longrightarrow>
      parse_config from_dict config_dict = ([], Inl err))
   \<and> (from_dict config_dict = Inr config \<longrightarrow>
      parse_config from_dict config_dict = ([], Inr config))"
proof -
  have a: "from_dict config_dict = Inl (DeepTypeError msg) \<longrightarrow>
      parse_config from_dict config_dict =
        ([(CRITICAL, ''Error in the configuration file, aborting.''), (CRITICAL, msg)],
         Inl (SystemExit 1))"
    by (simp add: parse_config_def)
  have b: "from_dict config_dict = Inl err \<and> (\<forall>m. err \<noteq> DeepTypeError m) \<longrightarrow>
      parse_config from_dict config_dict = ([], Inl err)"
    by (cases err) (simp_all add: parse_config_def)
  have c: "from_dict config_dict = Inr config \<longrightarrow>
      parse_config from_dict config_dict = ([], Inr config)"
    by (simp add: parse_config_def)
  from a b c show ?thesis
    by blast
qed

theorem parse_config_exit_witness:
  "parse_config (\<lambda>r. if r = RDict [] then Inl (DeepTypeError ''entities: missing'')
                      else if r = RNone then Inl (TypeError ''not a mapping'')
                      else Inr r) (RDict [] :: unit raw) =
     ([(CRITICAL, ''Error in the configuration file, aborting.''),
       (CRITICAL, ''entities: missing'')], Inl (SystemExit 1)) \<and>
   parse_config (\<lambda>r. if r = RDict [] then Inl (DeepTypeError ''entities: missing'')
                      else if r = RNone then Inl (TypeError ''not a mapping'')
                      else Inr r) (RNone :: unit raw) =
     ([], Inl (TypeError ''not a mapping'')) \<and>
   parse_config (\<lambda>r. if r = RDict [] then Inl (DeepTypeError ''entities: missing'')
                      else if r = RNone then Inl (TypeError ''not a mapping'')
                      else Inr r) (RInt 1 :: unit raw) = ([], Inr (RInt 1))"
proof -
  let ?f = "\<lambda>r :: unit raw. if r = RDict [] then Inl (DeepTypeError ''entities: missing'')
                      else if r = RNone then Inl (TypeError ''not a mapping'')
                      else Inr r"
  have a: "parse_config ?f (RDict []) =
     ([(CRITICAL, ''Error in the configuration file, aborting.''),
       (CRITICAL, ''entities: missing'')], Inl (SystemExit 1))"
    using parse_config_exit [of ?f "RDict []" "''entities: missing''"] by simp
  have b: "parse_config ?f RNone = ([], Inl (TypeError ''not a mapping''))"
    using parse_config_exit [of ?f RNone _ "TypeError ''not a mapping''"] by simp
  have c: "parse_config ?f (RInt 1) = ([], Inr (RInt 1))"
    using parse_config_exit [of ?f "RInt 1" _ _ "RInt 1"] by simp
  from a b c show ?thesis
    by blast
qed

subsection \<open>The loader and the module search path\<close>

lemma init_ok:
  "nm \<notin> set (dirs w) \<Longrightarrow>
   ConfigFileLoader_init nm w =
     (\<lparr>config_dir = Some \<lparr>td_name = nm, finalizer_alive = True\<rparr>, has_sys_path = True\<rparr>,
      \<lparr>sys_path = sys_path w @ [nm], dirs = dirs w @ [nm]\<rparr>, None)"
  by (simp add: ConfigFileLoader_init_def)


lemma del_path:
  "has_sys_path self \<Longrightarrow> config_dir self = Some d \<Longrightarrow> td_name d \<in> set (sys_path w) \<Longrightarrow>
   sys_path (fst (snd (ConfigFileLoader_del rm self w))) = remove1 (td_name d) (sys_path w)"
  by (simp add: ConfigFileLoader_del_def Let_def split: sum.splits)





lemma remove1_appended: "x \<notin> set xs \<Longrightarrow> remove1 x (xs @ x # ys) = xs @ ys"
  by (induction xs) auto

lemma filter_remove1_other:
  "filter (\<lambda>y. y \<noteq> x) (remove1 x xs) = filter (\<lambda>y. y \<noteq> x) xs"
  by (induction xs) auto




text \<open>
  C9. An acquisition that succeeds appends exactly one entry to the path, the name of
  the loader's own fresh directory. A release removes one entry equal to that name,
  the first, and no entry of another value: the entries different from the name stay
  as they are, in order, and the path is one entry shorter. With two loaders alive,
  whose names differ since the second directory is fresh, releasing the first leaves
  the entry of the second, and releasing both gives back the path from before.
\<close>

theorem loader_path_frame:
  "(nm \<notin> set (dirs w) \<longrightarrow>
      (\<exists>l w1. ConfigFileLoader_init nm w = (l, w1, None) \<and>
         sys_path w1 = sys_path w @ [nm] \<and>
         config_dir l = Some \<lparr>td_name = nm, finalizer_alive = True\<rparr> \<and> has_sys_path l))
   \<and> (has_sys_path self \<and> config_dir self = Some d \<and> td_name d \<in> set (sys_path w) \<longrightarrow>
      sys_path (fst (snd (ConfigFileLoader_del rm self w))) = remove1 (td_name d) (sys_path w) \<and>
      filter (\<lambda>y. y \<noteq> td_name d) (sys_path (fst (snd (ConfigFileLoader_del rm self w)))) =
        filter (\<lambda>y. y \<noteq> td_name d) (sys_path w) \<and>
      Suc (length (sys_path (fst (snd (ConfigFileLoader_del rm self w))))) = length (sys_path w))
   \<and> (na \<notin> set (dirs w) \<and> na \<notin> set (sys_path w) \<and> nb \<notin> set (dirs w @ [na]) \<and>
        nb \<notin> set (sys_path w) \<longrightarrow>
      (\<exists>l1 w1 l2 w2.
         ConfigFileLoader_init na w = (l1, w1, None) \<and>
         ConfigFileLoader_init nb w1 = (l2, w2, None) \<and>
         na \<noteq> nb \<and>
         sys_path w2 = sys_path w @ [na, nb] \<and>
         sys_path (fst (snd (ConfigFileLoader_del rm l1 w2))) = sys_path w @ [nb] \<and>
         sys_path (fst (snd (ConfigFileLoader_del rm l2 w2))) = sys_path w @ [na] \<and>
         sys_path (fst (snd (ConfigFileLoader_del rm l2
                      (fst (snd (ConfigFileLoader_del rm l1 w2)))))) = sys_path w \<and>
         sys_path (fst (snd (ConfigFileLoader_del rm l1
                      (fst (snd (ConfigFileLoader_del rm l2 w2)))))) = sys_path w))"
proof -
  have a: "nm \<notin> set (dirs w) \<longrightarrow>
      (\<exists>l w1. ConfigFileLoader_init nm w = (l, w1, None) \<and>
         sys_path w1 = sys_path w @ [nm] \<and>
         config_dir l = Some \<lparr>td_name = nm, finalizer_alive = True\<rparr> \<and> has_sys_path l)"
    by (simp add: init_ok)
  have b: "has_sys_path self \<and> config_dir self = Some d \<and> td_name d \<in> set (sys_path w) \<longrightarrow>
      sys_path (fst (snd (ConfigFileLoader_del rm self w))) = remove1 (td_name d) (sys_path w) \<and>
      filter (\<lambda>y. y \<noteq> td_name d) (sys_path (fst (snd (ConfigFileLoader_del rm self w)))) =
        filter (\<lambda>y. y \<noteq> td_name d) (sys_path w) \<and>
      Suc (length (sys_path (fst (snd (ConfigFileLoader_del rm self w))))) = length (sys_path w)"
  proof
    assume h: "has_sys_path self \<and> config_dir self = Some d \<and> td_name d \<in> set (sys_path w)"
    then have p: "sys_path (fst (snd (ConfigFileLoader_del rm self w))) =
        remove1 (td_name d) (sys_path w)"
      by (simp add: del_path)
    have "0 < length (sys_path w)"
      using h by (cases "sys_path w") auto
    with h show "sys_path (fst (snd (ConfigFileLoader_del rm self w))) =
        remove1 (td_name d) (sys_path w) \<and>
      filter (\<lambda>y. y \<noteq> td_name d) (sys_path (fst (snd (ConfigFileLoader_del rm self w)))) =
        filter (\<lambda>y. y \<noteq> td_name d) (sys_path w) \<and>
      Suc (length (sys_path (fst (snd (ConfigFileLoader_del rm self w))))) = length (sys_path w)"
      unfolding p by (simp add: filter_remove1_other length_remove1)
  qed
  have c: "na \<notin> set (dirs w) \<and> na \<notin> set (sys_path w) \<and> nb \<notin> set (dirs w @ [na]) \<and>
        nb \<notin> set (sys_path w) \<longrightarrow>
      (\<exists>l1 w1 l2 w2.
         ConfigFileLoader_init na w = (l1, w1, None) \<and>
         ConfigFileLoader_init nb w1 = (l2, w2, None) \<and>
         na \<noteq> nb \<and>
         sys_path w2 = sys_path w @ [na, nb] \<and>
         sys_path (fst (snd (ConfigFileLoader_del rm l1 w2))) = sys_path w @ [nb] \<and>
         sys_path (fst (snd (ConfigFileLoader_del rm l2 w2))) = sys_path w @ [na] \<and>
         sys_path (fst (snd (ConfigFileLoader_del rm l2
                      (fst (snd (ConfigFileLoader_del rm l1 w2)))))) = sys_path w \<and>
         sys_path (fst (snd (ConfigFileLoader_del rm l1
                      (fst (snd (ConfigFileLoader_del rm l2 w2)))))) = sys_path w)"
  proof
    assume h: "na \<notin> set (dirs w) \<and> na \<notin> set (sys_path w) \<and> nb \<notin> set (dirs w @ [na]) \<and>
        nb \<notin> set (sys_path w)"
    let ?d1 = "\<lparr>td_name = na, finalizer_alive = True\<rparr>"
    let ?d2 = "\<lparr>td_name = nb, finalizer_alive = True\<rparr>"
    let ?l1 = "\<lparr>config_dir = Some ?d1, has_sys_path = True\<rparr>"
    let ?l2 = "\<lparr>config_dir = Some ?d2, has_sys_path = True\<rparr>"
    let ?w1 = "\<lparr>sys_path = sys_path w @ [na], dirs = dirs w @ [na]\<rparr>"
    let ?w2 = "\<lparr>sys_path = sys_path ?w1 @ [nb], dirs = dirs ?w1 @ [nb]\<rparr>"
    let ?wa = "fst (snd (ConfigFileLoader_del rm ?l1 ?w2))"
    let ?wb = "fst (snd (ConfigFileLoader_del rm ?l2 ?w2))"
    have ne: "na \<noteq> nb"
      using h by auto
    have i1: "ConfigFileLoader_init na w = (?l1, ?w1, None)"
      using h by (simp add: init_ok)
    have i2: "ConfigFileLoader_init nb ?w1 = (?l2, ?w2, None)"
      using h by (intro init_ok) simp
    have p2: "sys_path ?w2 = sys_path w @ [na, nb]"
      by simp
    have pa: "sys_path ?wa = sys_path w @ [nb]"
      using h ne del_path [of ?l1 ?d1 ?w2 rm] by (simp add: remove1_append)
    have pb: "sys_path ?wb = sys_path w @ [na]"
      using h ne del_path [of ?l2 ?d2 ?w2 rm] by (simp add: remove1_append)
    have pab: "sys_path (fst (snd (ConfigFileLoader_del rm ?l2 ?wa))) = sys_path w"
      using h ne pa del_path [of ?l2 ?d2 ?wa rm] by (simp add: remove1_append)
    have pba: "sys_path (fst (snd (ConfigFileLoader_del rm ?l1 ?wb))) = sys_path w"
      using h ne pb del_path [of ?l1 ?d1 ?wb rm] by (simp add: remove1_append)
    from i1 i2 ne p2 pa pb pab pba show "\<exists>l1 w1 l2 w2.
         ConfigFileLoader_init na w = (l1, w1, None) \<and>
         ConfigFileLoader_init nb w1 = (l2, w2, None) \<and>
         na \<noteq> nb \<and>
         sys_path w2 = sys_path w @ [na, nb] \<and>
         sys_path (fst (snd (ConfigFileLoader_del rm l1 w2))) = sys_path w @ [nb] \<and>
         sys_path (fst (snd (ConfigFileLoader_del rm l2 w2))) = sys_path w @ [na] \<and>
         sys_path (fst (snd (ConfigFileLoader_del rm l2
                      (fst (snd (ConfigFileLoader_del rm l1 w2)))))) = sys_path w \<and>
         sys_path (fst (snd (ConfigFileLoader_del rm l1
                      (fst (snd (ConfigFileLoader_del rm l2 w2)))))) = sys_path w"
      by blast
  qed
  from a b c show ?thesis
    by blast
qed

theorem loader_path_frame_witness:
  "(\<exists>l w1. ConfigFileLoader_init ''/tmp/t1'' \<lparr>sys_path = [''/usr/lib''], dirs = []\<rparr> = (l, w1, None) \<and>
      sys_path w1 = [''/usr/lib'', ''/tmp/t1''] \<and>
      config_dir l = Some \<lparr>td_name = ''/tmp/t1'', finalizer_alive = True\<rparr> \<and> has_sys_path l)
   \<and> sys_path (fst (snd (ConfigFileLoader_del rmtree
        \<lparr>config_dir = Some \<lparr>td_name = ''/tmp/t1'', finalizer_alive = True\<rparr>, has_sys_path = True\<rparr>
        \<lparr>sys_path = [''/usr/lib'', ''/tmp/t1'', ''/tmp/t2''], dirs = [''/tmp/t1'', ''/tmp/t2'']\<rparr>))) =
      [''/usr/lib'', ''/tmp/t2'']
   \<and> (\<exists>l1 w1 l2 w2.
         ConfigFileLoader_init ''/tmp/t1'' \<lparr>sys_path = [''/usr/lib''], dirs = []\<rparr> = (l1, w1, None) \<and>
         ConfigFileLoader_init ''/tmp/t2'' w1 = (l2, w2, None) \<and>
         sys_path w2 = [''/usr/lib'', ''/tmp/t1'', ''/tmp/t2''] \<and>
         sys_path (fst (snd (ConfigFileLoader_del rmtree l1 w2))) = [''/usr/lib'', ''/tmp/t2''] \<and>
         sys_path (fst (snd (ConfigFileLoader_del rmtree l2
                      (fst (snd (ConfigFileLoader_del rmtree l1 w2)))))) = [''/usr/lib''])"
proof -
  have a: "\<exists>l w1. ConfigFileLoader_init ''/tmp/t1'' \<lparr>sys_path = [''/usr/lib''], dirs = []\<rparr> = (l, w1, None) \<and>
      sys_path w1 = [''/usr/lib'', ''/tmp/t1''] \<and>
      config_dir l = Some \<lparr>td_name = ''/tmp/t1'', finalizer_alive = True\<rparr> \<and> has_sys_path l"
    using loader_path_frame
      [where nm = "''/tmp/t1''" and w = "\<lparr>sys_path = [''/usr/lib''], dirs = []\<rparr>"]
    by simp
  have b: "sys_path (fst (snd (ConfigFileLoader_del rmtree
        \<lparr>config_dir = Some \<lparr>td_name = ''/tmp/t1'', finalizer_alive = True\<rparr>, has_sys_path = True\<rparr>
        \<lparr>sys_path = [''/usr/lib'', ''/tmp/t1'', ''/tmp/t2''], dirs = [''/tmp/t1'', ''/tmp/t2'']\<rparr>))) =
      [''/usr/lib'', ''/tmp/t2'']"
    using loader_path_frame
      [where self = "\<lparr>config_dir = Some \<lparr>td_name = ''/tmp/t1'', finalizer_alive = True\<rparr>,
                       has_sys_path = True\<rparr>"
         and d = "\<lparr>td_name = ''/tmp/t1'', finalizer_alive = True\<rparr>"
         and w = "\<lparr>sys_path = [''/usr/lib'', ''/tmp/t1'', ''/tmp/t2''],
                    dirs = [''/tmp/t1'', ''/tmp/t2'']\<rparr>"
         and rm = rmtree]
    by simp
  have c: "\<exists>l1 w1 l2 w2.
         ConfigFileLoader_init ''/tmp/t1'' \<lparr>sys_path = [''/usr/lib''], dirs = []\<rparr> = (l1, w1, None) \<and>
         ConfigFileLoader_init ''/tmp/t2'' w1 = (l2, w2, None) \<and>
         sys_path w2 = [''/usr/lib'', ''/tmp/t1'', ''/tmp/t2''] \<and>
         sys_path (fst (snd (ConfigFileLoader_del rmtree l1 w2))) = [''/usr/lib'', ''/tmp/t2''] \<and>
         sys_path (fst (snd (ConfigFileLoader_del rmtree l2
                      (fst (snd (ConfigFileLoader_del rmtree l1 w2)))))) = [''/usr/lib'']"
    using loader_path_frame
      [where na = "''/tmp/t1''" and nb = "''/tmp/t2''"
         and w = "\<lparr>sys_path = [''/usr/lib''], dirs = []\<rparr>" and rm = rmtree,
       THEN conjunct2, THEN conjunct2]
    by simp blast
  from a b c show ?thesis
    by blast
qed

end
